theory Spec2Isabelle
  imports Complex_Main
begin

section \<open>The hook \<open>useElementOnScreen\<close> of src/index.js\<close>

text \<open>
  The repository is one React hook. It keeps a reference slot and a visibility flag, and an
  effect that creates an \<open>IntersectionObserver\<close> for the element in the slot. The embedding
  has three layers:
  \<^item> JavaScript values and objects, as far as the hook touches them;
  \<^item> the three closures of the source (\<open>callbackFunction\<close>, the effect body and the cleanup
    it returns) and the hook itself, as functions on an explicit state;
  \<^item> the host: who calls the closures and when (React and the observation facility).
\<close>

subsection \<open>JavaScript values\<close>

text \<open>
  An object is an association list in insertion order. The only number the hook handles is
  the threshold, which it passes on and never computes with, so numbers are rationals
  (0.75 is the fraction 3/4). \<open>JElem\<close> is a handle of a DOM element.
\<close>

datatype jsval =
    JUndefined
  | JNull
  | JBool bool
  | JNum rat
  | JStr string
  | JElem nat
  | JObj "(string \<times> jsval) list"

type_synonym jsobj = "(string \<times> jsval) list"

text \<open>Reading a property: an absent property reads as \<open>undefined\<close>.\<close>

definition get_prop :: "jsobj \<Rightarrow> string \<Rightarrow> jsval" where
  "get_prop obj k = (case map_of obj k of None \<Rightarrow> JUndefined | Some v \<Rightarrow> v)"

text \<open>
  A destructuring default \<open>{ k = d }\<close>: the default is taken exactly when the property
  reads as \<open>undefined\<close>.
\<close>

definition with_default :: "jsval \<Rightarrow> jsval \<Rightarrow> jsval" where
  "with_default v d = (if v = JUndefined then d else v)"

text \<open>A rest pattern \<open>{ k1, ..., kn, ...rest }\<close>: the properties not named before it.\<close>

definition rest_of :: "string list \<Rightarrow> jsobj \<Rightarrow> jsobj" where
  "rest_of names obj = filter (\<lambda>kv. fst kv \<notin> set names) obj"

subsection \<open>State\<close>

text \<open>
  An intersection record; the hook reads its field \<open>isIntersecting\<close> only. A record is an
  object, hence truthy in the test \<open>if (entry)\<close>.
\<close>

record entry =
  isIntersecting :: bool

text \<open>
  The observation facility, seen from one tracker: the observers it has created (an observer
  handle is its index in the list), each with the options it was created with and its
  observation targets, and the trace of the calls made to the facility.
\<close>

record observer =
  options :: jsobj
  targets :: "nat list"

datatype platform_call =
    Create jsobj
  | Observe nat nat
  | Unobserve nat nat

record tracker =
  ref_current :: "nat option"
  isVisible :: bool
  observers :: "observer list"
  calls :: "platform_call list"
  warnings :: "string list"

text \<open>\<open>useRef(null)\<close> and \<open>useState(false)\<close>, and nothing created or logged yet.\<close>

definition initial :: tracker where
  "initial = \<lparr>ref_current = None, isVisible = False, observers = [], calls = [], warnings = []\<rparr>"

datatype error = ReferenceError string

text \<open>
  How a closure ends: normally with a value, or by throwing. The state reached so far is
  kept in both cases, since a throw undoes nothing.
\<close>

datatype 'a completion =
    Normal 'a tracker
  | Throw error tracker

fun state_of :: "'a completion \<Rightarrow> tracker" where
  "state_of (Normal v s) = s"
| "state_of (Throw e s) = s"

fun throws :: "'a completion \<Rightarrow> bool" where
  "throws (Normal v s) = False"
| "throws (Throw e s) = True"

subsection \<open>The consumed operations\<close>

definition console_warn :: "string \<Rightarrow> tracker \<Rightarrow> tracker" where
  "console_warn msg s = s\<lparr>warnings := warnings s @ [msg]\<rparr>"

definition setIsVisible :: "bool \<Rightarrow> tracker \<Rightarrow> tracker" where
  "setIsVisible v s = s\<lparr>isVisible := v\<rparr>"

text \<open>
  \<open>new IntersectionObserver(callback, opts)\<close>, for options the facility accepts: a new
  observer without targets. The callback is always \<open>callbackFunction\<close>, whose only free
  variable \<open>setIsVisible\<close> is the same in every render, so it is not stored.
\<close>

definition new_IntersectionObserver :: "jsobj \<Rightarrow> tracker \<Rightarrow> nat \<times> tracker" where
  "new_IntersectionObserver opts s =
     (length (observers s),
      s\<lparr>observers := observers s @ [\<lparr>options = opts, targets = []\<rparr>],
        calls := calls s @ [Create opts]\<rparr>)"

definition observe :: "nat \<Rightarrow> nat \<Rightarrow> tracker \<Rightarrow> tracker" where
  "observe h el s =
     (let s' = s\<lparr>calls := calls s @ [Observe h el]\<rparr>
      in if h < length (observers s)
         then (let ob = observers s ! h
               in s'\<lparr>observers := (observers s)
                       [h := ob\<lparr>targets := (if el \<in> set (targets ob) then targets ob
                                               else targets ob @ [el])\<rparr>]\<rparr>)
         else s')"

definition unobserve :: "nat \<Rightarrow> nat \<Rightarrow> tracker \<Rightarrow> tracker" where
  "unobserve h el s =
     (let s' = s\<lparr>calls := calls s @ [Unobserve h el]\<rparr>
      in if h < length (observers s)
         then (let ob = observers s ! h
               in s'\<lparr>observers := (observers s)
                       [h := ob\<lparr>targets := removeAll el (targets ob)\<rparr>]\<rparr>)
         else s')"

subsection \<open>The closures of the source\<close>

text \<open>
  Lines 27 to 34. \<open>const [entry] = entries\<close> takes the first record, or \<open>undefined\<close> from an
  empty delivery.
\<close>

definition callbackFunction :: "entry list \<Rightarrow> tracker \<Rightarrow> unit completion" where
  "callbackFunction entries s =
     (case entries of
        entry # _ \<Rightarrow> Normal () (setIsVisible (isIntersecting entry) s)
      | [] \<Rightarrow> Normal () (console_warn ''useElementOnScreen: entry not provided'' s))"

text \<open>
  A scope gives the observer handles bound to identifiers. The effect body (lines 36 to 60)
  binds no observer at the level of its function body: \<open>const observer\<close> is declared inside
  the block of \<open>if (ref.current)\<close>, and that binding ends with the block. The cleanup closure
  is created outside the block, so the scope it captures is the one of the function body.
\<close>

type_synonym scope = "(string \<times> nat) list"

definition resolve :: "scope \<Rightarrow> string \<Rightarrow> error + nat" where
  "resolve env name =
     (case map_of env name of None \<Rightarrow> Inl (ReferenceError name) | Some h \<Rightarrow> Inr h)"

definition observer_options :: "jsobj \<Rightarrow> jsobj" where
  "observer_options opts =
     (let root = with_default (get_prop opts ''root'') JNull;
          rootMargin = with_default (get_prop opts ''rootMargin'') (JStr ''0px'');
          threshold = with_default (get_prop opts ''threshold'') (JNum (3 / 4));
          rest = rest_of [''root'', ''rootMargin'', ''threshold''] opts
      in [(''root'', root), (''rootMargin'', rootMargin), (''threshold'', threshold),
          (''rest'', JObj rest)])"

text \<open>
  The effect body, lines 37 to 51, with the scope captured by the cleanup it returns.
\<close>

definition effect :: "jsobj \<Rightarrow> tracker \<Rightarrow> scope completion" where
  "effect opts s =
     (let body_scope = [] :: scope
      in case ref_current s of
           Some el \<Rightarrow>
             (let (observer, s1) = new_IntersectionObserver (observer_options opts) s;
                  block_scope = (''observer'', observer) # body_scope
              in case resolve block_scope ''observer'' of
                   Inr h \<Rightarrow> Normal body_scope (observe h el s1)
                 | Inl e \<Rightarrow> Throw e s1)
         | None \<Rightarrow> Normal body_scope (console_warn ''useElementOnScreen: no ref.current found'' s))"

text \<open>
  The cleanup, lines 54 to 60, run in the scope it captured. It reads \<open>ref.current\<close> when it
  runs; \<open>observer.unobserve(ref.current)\<close> resolves the identifier \<open>observer\<close> first.
\<close>

definition cleanup :: "scope \<Rightarrow> tracker \<Rightarrow> unit completion" where
  "cleanup env s =
     (case ref_current s of
        Some el \<Rightarrow>
          (case resolve env ''observer'' of
             Inr h \<Rightarrow> Normal () (unobserve h el s)
           | Inl e \<Rightarrow> Throw e s)
      | None \<Rightarrow> Normal () (console_warn ''useElementOnScreen: no ref.current found'' s))"

text \<open>
  The hook, lines 18 to 64, in a render: the argument is \<open>None\<close> when the caller passes none,
  and the default parameter \<open>options = {}\<close> then applies. It returns the pair of the
  reference slot (here: what the slot holds) and the flag, and the effect to run.
\<close>

definition useElementOnScreen ::
  "jsobj option \<Rightarrow> tracker \<Rightarrow> (nat option \<times> bool) \<times> (tracker \<Rightarrow> scope completion)" where
  "useElementOnScreen arg s =
     (let opts = (case arg of None \<Rightarrow> [] | Some obj \<Rightarrow> obj)
      in ((ref_current s, isVisible s), effect opts))"


subsection \<open>The host\<close>

text \<open>
  The host decides when the closures run. It attaches an element to the reference slot or
  detaches it, renders the hook with an argument and then runs the cleanup of the previous
  effect followed by the new effect (React does so whenever a dependency of the effect has
  changed), delivers a batch of records to the callback of an observer that has a target,
  and ends the binding by running the last cleanup. The cleanup finds the slot as the host
  left it: a host that detaches the element before the last cleanup is the course
  \<open>Attach None\<close>, \<open>Unbind\<close>.

  An error thrown by a closure is reported by the host and recorded here. The host runs
  every cleanup in a guarded call and goes on to the new effect of the same step; no
  component catches the error, so the host then takes the component down: the binding has
  ended. After the binding has ended the host calls nothing more, and a delivery on an
  observer that is left over writes no flag.
\<close>

datatype event =
    Attach "nat option"
  | Bind "jsobj option"
  | Deliver nat "entry list"
  | Unbind

fun is_delivery :: "event \<Rightarrow> bool" where
  "is_delivery (Deliver h es) = True"
| "is_delivery ev = False"

record binding =
  tracker_of :: tracker
  pending :: "scope option"
  raised :: "error list"
  ended :: bool

definition fresh :: binding where
  "fresh = \<lparr>tracker_of = initial, pending = None, raised = [], ended = False\<rparr>"

definition settle :: "'a completion \<Rightarrow> binding \<Rightarrow> binding" where
  "settle c b =
     (case c of
        Normal v s \<Rightarrow> b\<lparr>tracker_of := s\<rparr>
      | Throw e s \<Rightarrow> b\<lparr>tracker_of := s, raised := raised b @ [e], ended := True\<rparr>)"

definition run_cleanup :: "binding \<Rightarrow> binding" where
  "run_cleanup b =
     (case pending b of
        None \<Rightarrow> b
      | Some env \<Rightarrow> (settle (cleanup env (tracker_of b)) b)\<lparr>pending := None\<rparr>)"

definition run_effect :: "(tracker \<Rightarrow> scope completion) \<Rightarrow> binding \<Rightarrow> binding" where
  "run_effect eff b =
     (let c = eff (tracker_of b)
      in (settle c b)\<lparr>pending := (case c of Normal env s \<Rightarrow> Some env | Throw e s \<Rightarrow> None)\<rparr>)"

definition active :: "observer \<Rightarrow> bool" where
  "active ob = (targets ob \<noteq> [])"

definition step :: "event \<Rightarrow> binding \<Rightarrow> binding" where
  "step ev b =
     (if ended b then b
      else case ev of
             Attach r \<Rightarrow> b\<lparr>tracker_of := (tracker_of b)\<lparr>ref_current := r\<rparr>\<rparr>
           | Bind arg \<Rightarrow>
               (let (returned, eff) = useElementOnScreen arg (tracker_of b)
                in run_effect eff (run_cleanup b))
           | Deliver h es \<Rightarrow>
               (if h < length (observers (tracker_of b)) \<and> active (observers (tracker_of b) ! h)
                then settle (callbackFunction es (tracker_of b)) b
                else b)
           | Unbind \<Rightarrow> (run_cleanup b)\<lparr>ended := True\<rparr>)"

fun run :: "event list \<Rightarrow> binding \<Rightarrow> binding" where
  "run [] b = b"
| "run (ev # evs) b = run evs (step ev b)"

text \<open>The option records handed to the facility's constructor, in order.\<close>

fun created :: "platform_call list \<Rightarrow> jsobj list" where
  "created [] = []"
| "created (Create opts # cs) = opts # created cs"
| "created (c # cs) = created cs"

text \<open>Two configurations that differ in the threshold.\<close>

definition half_visible :: jsobj where
  "half_visible = [(''threshold'', JNum (1 / 2))]"

definition mostly_visible :: jsobj where
  "mostly_visible = [(''threshold'', JNum (9 / 10))]"

section \<open>Properties\<close>

lemma created_append: "created (cs @ ds) = created cs @ created ds"
  by (induction cs rule: created.induct) simp_all

lemma effect_attached:
  "effect opts (s\<lparr>ref_current := Some el\<rparr>) =
     Normal [] (s\<lparr>ref_current := Some el,
                  observers := observers s @ [\<lparr>options = observer_options opts, targets = [el]\<rparr>],
                  calls := calls s @ [Create (observer_options opts),
                                     Observe (length (observers s)) el]\<rparr>)"
  by (simp add: effect_def new_IntersectionObserver_def resolve_def observe_def Let_def)

lemma effect_detached:
  "effect opts (s\<lparr>ref_current := None\<rparr>) =
     Normal [] (s\<lparr>ref_current := None,
                  warnings := warnings s @ [''useElementOnScreen: no ref.current found'']\<rparr>)"
  by (simp add: effect_def console_warn_def)

lemma cleanup_detached:
  "cleanup env (s\<lparr>ref_current := None\<rparr>) =
     Normal () (s\<lparr>ref_current := None,
                  warnings := warnings s @ [''useElementOnScreen: no ref.current found'']\<rparr>)"
  by (simp add: cleanup_def console_warn_def)

lemma cleanup_attached:
  "cleanup [] (s\<lparr>ref_current := Some el\<rparr>) =
     Throw (ReferenceError ''observer'') (s\<lparr>ref_current := Some el\<rparr>)"
  by (simp add: cleanup_def resolve_def)


lemma cleanup_keeps_flag: "isVisible (state_of (cleanup env s)) = isVisible s"
  by (simp add: cleanup_def resolve_def unobserve_def console_warn_def Let_def
      split: option.split sum.split)

lemma effect_keeps_flag: "isVisible (state_of (effect opts s)) = isVisible s"
  by (simp add: effect_def new_IntersectionObserver_def resolve_def observe_def console_warn_def
      Let_def split: option.split)

lemma settle_flag: "isVisible (tracker_of (settle c b)) = isVisible (state_of c)"
  by (cases c) (simp_all add: settle_def)

lemma run_cleanup_keeps_flag:
  "isVisible (tracker_of (run_cleanup b)) = isVisible (tracker_of b)"
  by (simp add: run_cleanup_def settle_flag cleanup_keeps_flag split: option.split)

lemma run_effect_keeps_flag:
  "isVisible (tracker_of (run_effect (effect opts) b)) = isVisible (tracker_of b)"
  by (simp add: run_effect_def Let_def settle_flag effect_keeps_flag)

lemma step_keeps_flag:
  "\<not> is_delivery ev \<Longrightarrow> isVisible (tracker_of (step ev b)) = isVisible (tracker_of b)"
  by (cases ev)
     (simp_all add: step_def useElementOnScreen_def run_effect_keeps_flag run_cleanup_keeps_flag)

lemma run_keeps_flag:
  "\<forall>ev\<in>set evs. \<not> is_delivery ev \<Longrightarrow>
     isVisible (tracker_of (run evs b)) = isVisible (tracker_of b)"
  by (induction evs arbitrary: b) (simp_all add: step_keeps_flag)

lemmas host_defs =
  fresh_def initial_def step_def run_cleanup_def run_effect_def settle_def active_def
  useElementOnScreen_def effect_def cleanup_def callbackFunction_def resolve_def
  new_IntersectionObserver_def observe_def unobserve_def console_warn_def setIsVisible_def
  observer_options_def with_default_def get_prop_def rest_of_def
  half_visible_def mostly_visible_def Let_def

lemma cleanup_releases_nothing:
  "observers (state_of (cleanup [] s)) = observers s \<and> calls (state_of (cleanup [] s)) = calls s"
  by (simp add: cleanup_def resolve_def console_warn_def split: option.split)

subsection \<open>The callback\<close>

text \<open>
  C4. For every non-empty batch of intersection records delivered to the callback, the
  visibility flag is set to the \<open>isIntersecting\<close> value of the first record, nothing else
  of the state changes, and the records after the first have no influence: any two batches
  with the same first record give the same result.
\<close>

theorem callback_consults_first_record:
  "callbackFunction (e # es) s = Normal () (s\<lparr>isVisible := isIntersecting e\<rparr>)
   \<and> callbackFunction (e # es) s = callbackFunction (e # es') s"
  by (simp add: callbackFunction_def setIsVisible_def)

text \<open>
  C5. For a delivery whose record set is empty, the callback completes normally, the
  visibility flag keeps the value it had before the delivery, and the warning
  "useElementOnScreen: entry not provided" is logged; the host has no error to report.
\<close>

theorem callback_empty_delivery:
  "callbackFunction [] s =
     Normal () (s\<lparr>warnings := warnings s @ [''useElementOnScreen: entry not provided'']\<rparr>)
   \<and> isVisible (state_of (callbackFunction [] s)) = isVisible s
   \<and> throws (callbackFunction [] s) = False
   \<and> raised (step (Deliver h []) b) = raised b"
  by (simp add: callbackFunction_def console_warn_def step_def settle_def)

subsection \<open>The effect\<close>

text \<open>
  C6. For every configuration record given to the hook, when the effect the hook registers
  runs with an element attached (also as the host's step on a binding without a previous
  effect), the one option record it hands to the facility's constructor has exactly the
  four keys \<open>root\<close>, \<open>rootMargin\<close>, \<open>threshold\<close> and \<open>rest\<close>: \<open>root\<close> from the
  configuration or null when absent, \<open>rootMargin\<close> from the configuration or "0px" when
  absent, \<open>threshold\<close> from the configuration or 0.75 when absent (a property that is
  present with the value \<open>undefined\<close> takes the default as well), and every other field
  of the configuration gathered in one nested object under the key \<open>rest\<close>, not spread
  into the top level.
\<close>

theorem options_passed_to_observer:
  "created (calls (state_of
      (snd (useElementOnScreen (Some cfg) t) (s\<lparr>ref_current := Some el\<rparr>)))) =
     created (calls s) @
     [[(''root'',
          case map_of cfg ''root'' of
            None \<Rightarrow> JNull | Some v \<Rightarrow> if v = JUndefined then JNull else v),
       (''rootMargin'',
          case map_of cfg ''rootMargin'' of
            None \<Rightarrow> JStr ''0px'' | Some v \<Rightarrow> if v = JUndefined then JStr ''0px'' else v),
       (''threshold'',
          case map_of cfg ''threshold'' of
            None \<Rightarrow> JNum (3 / 4) | Some v \<Rightarrow> if v = JUndefined then JNum (3 / 4) else v),
       (''rest'',
          JObj (filter (\<lambda>kv. fst kv \<noteq> ''root'' \<and> fst kv \<noteq> ''rootMargin''
                              \<and> fst kv \<noteq> ''threshold'') cfg))]]
   \<and> created (calls (tracker_of (step (Bind (Some cfg))
        (b\<lparr>tracker_of := s\<lparr>ref_current := Some el\<rparr>, pending := None, ended := False\<rparr>)))) =
     created (calls s) @
     [[(''root'',
          case map_of cfg ''root'' of
            None \<Rightarrow> JNull | Some v \<Rightarrow> if v = JUndefined then JNull else v),
       (''rootMargin'',
          case map_of cfg ''rootMargin'' of
            None \<Rightarrow> JStr ''0px'' | Some v \<Rightarrow> if v = JUndefined then JStr ''0px'' else v),
       (''threshold'',
          case map_of cfg ''threshold'' of
            None \<Rightarrow> JNum (3 / 4) | Some v \<Rightarrow> if v = JUndefined then JNum (3 / 4) else v),
       (''rest'',
          JObj (filter (\<lambda>kv. fst kv \<noteq> ''root'' \<and> fst kv \<noteq> ''rootMargin''
                              \<and> fst kv \<noteq> ''threshold'') cfg))]]
   \<and> map fst (last (created (calls (tracker_of (step (Bind (Some cfg))
        (b\<lparr>tracker_of := s\<lparr>ref_current := Some el\<rparr>, pending := None, ended := False\<rparr>)))))) =
     [''root'', ''rootMargin'', ''threshold'', ''rest'']"
  by (simp add: useElementOnScreen_def step_def run_cleanup_def run_effect_def settle_def
      effect_attached created_append observer_options_def with_default_def
      get_prop_def rest_of_def split: option.split)

text \<open>
  C9. If the reference slot holds no element when the effect runs, the effect completes
  normally, creates no observer and makes no call to the facility, and logs the warning
  "useElementOnScreen: no ref.current found"; run by the host on a binding without a
  previous effect, it leaves the observers as they were and the host has no error to
  report.
\<close>

theorem effect_without_element:
  "effect opts (s\<lparr>ref_current := None\<rparr>) =
     Normal [] (s\<lparr>ref_current := None,
                  warnings := warnings s @ [''useElementOnScreen: no ref.current found'']\<rparr>)
   \<and> observers (state_of (effect opts (s\<lparr>ref_current := None\<rparr>))) = observers s
   \<and> calls (state_of (effect opts (s\<lparr>ref_current := None\<rparr>))) = calls s
   \<and> throws (effect opts (s\<lparr>ref_current := None\<rparr>)) = False
   \<and> observers (tracker_of (step (Bind arg)
        (b\<lparr>tracker_of := s\<lparr>ref_current := None\<rparr>, pending := None, ended := False\<rparr>))) =
      observers s
   \<and> raised (step (Bind arg)
        (b\<lparr>tracker_of := s\<lparr>ref_current := None\<rparr>, pending := None, ended := False\<rparr>)) =
      raised b"
  by (simp add: effect_detached step_def useElementOnScreen_def run_cleanup_def run_effect_def
      settle_def)

subsection \<open>The cleanup\<close>

text \<open>
  C8. When the cleanup runs while the reference slot is empty, whatever scope it captured,
  it completes normally, makes no call to the facility (no unobserve, no disconnect), and
  logs the warning "useElementOnScreen: no ref.current found"; run by the host at teardown,
  the host has no error to report.
\<close>

theorem teardown_without_element:
  "cleanup env (s\<lparr>ref_current := None\<rparr>) =
     Normal () (s\<lparr>ref_current := None,
                  warnings := warnings s @ [''useElementOnScreen: no ref.current found'']\<rparr>)
   \<and> calls (state_of (cleanup env (s\<lparr>ref_current := None\<rparr>))) = calls s
   \<and> throws (cleanup env (s\<lparr>ref_current := None\<rparr>)) = False
   \<and> calls (tracker_of (step Unbind
        (b\<lparr>tracker_of := s\<lparr>ref_current := None\<rparr>, pending := Some env, ended := False\<rparr>))) =
      calls s
   \<and> warnings (tracker_of (step Unbind
        (b\<lparr>tracker_of := s\<lparr>ref_current := None\<rparr>, pending := Some env, ended := False\<rparr>))) =
      warnings s @ [''useElementOnScreen: no ref.current found'']
   \<and> raised (step Unbind
        (b\<lparr>tracker_of := s\<lparr>ref_current := None\<rparr>, pending := Some env, ended := False\<rparr>)) =
      raised b"
  by (simp add: cleanup_detached step_def run_cleanup_def settle_def)

text \<open>
  C1, as the code behaves. The specification asks that on every exit path of a binding
  with an element attached the cleanup runs without error and releases the observer once. At the
  input below (element 7 attached, the hook bound with threshold 0.5, then either teardown
  or a change of the threshold) the cleanup throws \<open>ReferenceError\<close> for the identifier
  \<open>observer\<close>, and the facility has received the calls that created the observers and
  started the observation, and no call that releases one.
\<close>

theorem cleanup_with_element_throws:
  "raised (run [Attach (Some 7), Bind (Some half_visible), Unbind] fresh) =
     [ReferenceError ''observer'']
   \<and> calls (tracker_of (run [Attach (Some 7), Bind (Some half_visible), Unbind] fresh)) =
     [Create (observer_options half_visible), Observe 0 7]
   \<and> map targets (observers (tracker_of
        (run [Attach (Some 7), Bind (Some half_visible), Unbind] fresh))) = [[7]]
   \<and> raised (run [Attach (Some 7), Bind (Some half_visible), Bind (Some mostly_visible)] fresh) =
     [ReferenceError ''observer'']
   \<and> calls (tracker_of
        (run [Attach (Some 7), Bind (Some half_visible), Bind (Some mostly_visible)] fresh)) =
     [Create (observer_options half_visible), Observe 0 7,
      Create (observer_options mostly_visible), Observe 1 7]"
  by (simp add: host_defs)

subsection \<open>The lifetime of a binding\<close>

text \<open>
  C2, as the code behaves. The specification asks that a tracker never has two active
  observers.
  At the input below (element 7 attached, the hook bound with threshold 0.5, then bound
  again with threshold 0.9) the tracker has two observers, both with element 7 as their
  target.
\<close>

theorem two_observers_after_reconfiguration:
  "map targets (observers (tracker_of
      (run [Attach (Some 7), Bind (Some half_visible), Bind (Some mostly_visible)] fresh))) =
     [[7], [7]]
   \<and> length (filter active (observers (tracker_of
      (run [Attach (Some 7), Bind (Some half_visible), Bind (Some mostly_visible)] fresh)))) = 2"
  by (simp add: host_defs)



text \<open>
  C7. For all configurations, and for every course of events that contains no callback
  delivery (elements attaching and detaching, the hook being bound and bound again with
  any arguments, teardown), the visibility flag is false, and so is the flag in the pair
  the hook returns.
\<close>

theorem flag_false_before_first_delivery:
  assumes "\<forall>ev\<in>set evs. \<not> is_delivery ev"
  shows "isVisible (tracker_of (run evs fresh)) = False
         \<and> snd (fst (useElementOnScreen cfg (tracker_of (run evs fresh)))) = False"
proof -
  have "isVisible (tracker_of (run evs fresh)) = isVisible (tracker_of fresh)"
    using assms by (rule run_keeps_flag)
  then have "isVisible (tracker_of (run evs fresh)) = False"
    by (simp add: fresh_def initial_def)
  then show ?thesis
    by (simp add: useElementOnScreen_def)
qed

theorem flag_false_before_first_delivery_witness:
  "filter is_delivery [Attach (Some 7), Bind None, Bind (Some half_visible), Attach None, Unbind] = []
   \<and> isVisible (tracker_of
       (run [Attach (Some 7), Bind None, Bind (Some half_visible), Attach None, Unbind] fresh)) =
     False
   \<and> snd (fst (useElementOnScreen (Some mostly_visible) (tracker_of
       (run [Attach (Some 7), Bind None, Bind (Some half_visible), Attach None, Unbind] fresh)))) =
     False"
proof -
  have h: "\<forall>ev\<in>set [Attach (Some 7), Bind None, Bind (Some half_visible), Attach None, Unbind].
             \<not> is_delivery ev"
    by simp
  from flag_false_before_first_delivery [OF h, of "Some mostly_visible"] show ?thesis
    by simp
qed

subsection \<open>The default parameter\<close>

text \<open>
  C10. Calling the hook with no argument is the same as calling it with the empty
  configuration record: the same pair of reference slot and flag is returned and the same
  effect is registered, so that the host's step is the same; with an element attached,
  that effect hands the defaults to the facility: root null, rootMargin "0px", threshold
  0.75 and an empty \<open>rest\<close>.
\<close>

theorem no_argument_is_empty_record:
  "useElementOnScreen None s = useElementOnScreen (Some []) s
   \<and> fst (useElementOnScreen None s) = (ref_current s, isVisible s)
   \<and> created (calls (state_of
        (snd (useElementOnScreen None s) (t\<lparr>ref_current := Some el\<rparr>)))) =
      created (calls t) @
      [[(''root'', JNull), (''rootMargin'', JStr ''0px''), (''threshold'', JNum (3 / 4)),
        (''rest'', JObj [])]]
   \<and> step (Bind None) b = step (Bind (Some [])) b"
  by (simp add: useElementOnScreen_def step_def effect_attached created_append
      observer_options_def with_default_def get_prop_def rest_of_def)

end
